theory Spec2Isabelle
  imports Main "HOL-Library.Sublist"
begin

section \<open>JavaScript values\<close>

text \<open>
  A property of a JavaScript object that holds a string or is absent is a
  \<open>string option\<close>: \<open>None\<close> is \<open>undefined\<close>, \<open>Some s\<close> the string \<open>s\<close>.
  Truthiness is JavaScript's: the empty string and \<open>undefined\<close> are falsy.
\<close>

definition truthy :: "string option \<Rightarrow> bool" where
  "truthy v = (case v of None \<Rightarrow> False | Some s \<Rightarrow> s \<noteq> [])"

text \<open>\<open>a || b\<close> on such values.\<close>

definition js_or :: "string option \<Rightarrow> string option \<Rightarrow> string option" where
  "js_or a b = (if truthy a then a else b)"

text \<open>The string conversion that \<open>endsWith\<close> applies to its argument.\<close>

definition toString :: "string option \<Rightarrow> string" where
  "toString v = (case v of None \<Rightarrow> ''undefined'' | Some s \<Rightarrow> s)"

text \<open>\<open>s.split(c)\<close> for a one-character separator: never the empty array.\<close>

fun js_split :: "char \<Rightarrow> string \<Rightarrow> string list" where
  "js_split c [] = [[]]"
| "js_split c (x # xs) =
     (if x = c then [] # js_split c xs
      else (case js_split c xs of [] \<Rightarrow> [[x]] | s # ss \<Rightarrow> (x # s) # ss))"

text \<open>\<open>parts.join(sep)\<close>.\<close>

fun js_join :: "string \<Rightarrow> string list \<Rightarrow> string" where
  "js_join sep [] = []"
| "js_join sep [s] = s"
| "js_join sep (s # t # ts) = s @ sep @ js_join sep (t # ts)"

text \<open>\<open>parts[parts.length - 1]\<close> and \<open>parts.pop()\<close>: \<open>undefined\<close> on the empty array.\<close>

definition lastElement :: "string list \<Rightarrow> string option" where
  "lastElement parts = (if parts = [] then None else Some (last parts))"

text \<open>
  A thrown value: an \<open>Error\<close> object with its message. The SDK rejects with such
  objects; a rejection with \<open>null\<close> or \<open>undefined\<close>, whose \<open>message\<close> a
  \<open>catch\<close> block could not read, is not modelled.
\<close>

datatype js_error = Error string

section \<open>The runtime and the remote asset host\<close>

text \<open>
  What the code reads from its runtime: the environment variable
  \<open>process.env.IMAGEKIT_URL_ENDPOINT\<close> and the platform's URL parser,
  \<open>new URL(s).pathname\<close>, which is \<open>None\<close> where the constructor throws.
\<close>

record runtime =
  IMAGEKIT_URL_ENDPOINT :: "string option"
  URL_pathname :: "string \<Rightarrow> string option"

text \<open>A file record of a listing, with the properties the code reads.\<close>

record ik_file =
  fileId :: "string option"
  filePath :: "string option"
  path :: "string option"
  "file" :: "string option"
  url :: "string option"
  webkitRelativePath :: "string option"
  name :: "string option"
  fileName :: "string option"

text \<open>
  The response object of \<open>listFiles\<close> when it is not an array: its \<open>results\<close>,
  \<open>data\<close> and \<open>files\<close> properties (arrays when present) and the object itself
  read as a file record.
\<close>

record list_object =
  results :: "ik_file list option"
  data :: "ik_file list option"
  files :: "ik_file list option"
  self :: ik_file

datatype list_response = RespArray "ik_file list" | RespObject list_object | RespOther

text \<open>
  The calls the code makes on the SDK object \<open>imagekit\<close>, and the trace it leaves:
  each SDK call with its outcome (\<open>True\<close> when the promise resolved), and the console
  line of \<open>deleteImageFromImageKit\<close> that announces a delete attempt.
\<close>

datatype sdk_call = ListFiles "string option" | DeleteFile string | Upload string string

datatype event = Attempting string | Called sdk_call bool

text \<open>
  The SDK is a capability over a host state \<open>'h\<close>: every operation answers with a
  value or a thrown error, and a new host state. \<open>listFiles\<close> takes the \<open>path\<close>
  option (\<open>None\<close> for the unscoped query), \<open>upload\<close> the file name and the folder.
\<close>

record 'h imagekit_sdk =
  listFiles :: "string option \<Rightarrow> 'h \<Rightarrow> (js_error + list_response) \<times> 'h"
  deleteFile :: "string \<Rightarrow> 'h \<Rightarrow> (js_error + unit) \<times> 'h"
  upload :: "string \<Rightarrow> string \<Rightarrow> 'h \<Rightarrow> (js_error + ik_file) \<times> 'h"

definition call_listFiles ::
  "'h imagekit_sdk \<Rightarrow> string option \<Rightarrow> 'h \<Rightarrow> (js_error + list_response) \<times> 'h \<times> event list" where
  "call_listFiles sdk p h =
     (case listFiles sdk p h of (r, h') \<Rightarrow> (r, h', [Called (ListFiles p) (\<not> isl r)]))"

definition call_deleteFile ::
  "'h imagekit_sdk \<Rightarrow> string \<Rightarrow> 'h \<Rightarrow> (js_error + unit) \<times> 'h \<times> event list" where
  "call_deleteFile sdk i h =
     (case deleteFile sdk i h of (r, h') \<Rightarrow> (r, h', [Called (DeleteFile i) (\<not> isl r)]))"

definition call_upload ::
  "'h imagekit_sdk \<Rightarrow> string \<Rightarrow> string \<Rightarrow> 'h \<Rightarrow> (js_error + ik_file) \<times> 'h \<times> event list" where
  "call_upload sdk fname folder h =
     (case upload sdk fname folder h of (r, h') \<Rightarrow> (r, h', [Called (Upload fname folder) (\<not> isl r)]))"

text \<open>The delete attempts and the \<open>deleteFile\<close> calls of a trace, in order.\<close>

fun attempts :: "event list \<Rightarrow> string list" where
  "attempts [] = []"
| "attempts (Attempting s # es) = s # attempts es"
| "attempts (Called c ok # es) = attempts es"

fun deletes :: "event list \<Rightarrow> string list" where
  "deletes [] = []"
| "deletes (Called (DeleteFile i) ok # es) = i # deletes es"
| "deletes (e # es) = deletes es"

section \<open>utils/imagekitUpload.js\<close>

subsection \<open>isImageKitUrl\<close>

definition isImageKitUrl :: "runtime \<Rightarrow> string option \<Rightarrow> bool" where
  "isImageKitUrl rt u =
     (case u of None \<Rightarrow> False
      | Some s \<Rightarrow>
          if s = [] then False
          else (case IMAGEKIT_URL_ENDPOINT rt of None \<Rightarrow> False
                | Some imagekitEndpoint \<Rightarrow>
                    if imagekitEndpoint = [] then False
                    else sublist imagekitEndpoint s \<or> prefix ''https://ik.imagekit.io/'' s))"

subsection \<open>extractImageKitFilePath\<close>

definition extractImageKitFilePath :: "runtime \<Rightarrow> string option \<Rightarrow> string option" where
  "extractImageKitFilePath rt imageUrl =
     (case imageUrl of None \<Rightarrow> None
      | Some s \<Rightarrow>
          if s = [] then None
          else (case URL_pathname rt s of
                  Some pathname \<Rightarrow>
                    (let pathParts = filter (\<lambda>p. p \<noteq> []) (js_split CHR ''/'' pathname)
                     in if length pathParts > 0 then Some (''/'' @ js_join ''/'' pathParts)
                        else None)
                | None \<Rightarrow> if prefix ''/'' s then Some s else None))"

subsection \<open>getImageKitFileId\<close>

text \<open>
  The array of files taken from a list response (the same code in both methods): the
  response when it is an array, else its \<open>results\<close>, \<open>data\<close> or \<open>files\<close>, else the
  response itself when it carries a \<open>fileId\<close>.
\<close>

definition responseFiles :: "list_response \<Rightarrow> ik_file list" where
  "responseFiles listResponse =
     (case listResponse of
        RespArray fs \<Rightarrow> fs
      | RespObject ob \<Rightarrow>
          (let fs = (case results ob of Some a \<Rightarrow> a
                     | None \<Rightarrow> (case data ob of Some a \<Rightarrow> a
                                 | None \<Rightarrow> (case files ob of Some a \<Rightarrow> a | None \<Rightarrow> [])))
           in if truthy (fileId (self ob)) \<and> length fs = 0 then [self ob] else fs)
      | RespOther \<Rightarrow> [])"

text \<open>The three predicates of Method 1, in the order of the code.\<close>

definition exactFilePathMatch :: "string \<Rightarrow> ik_file \<Rightarrow> bool" where
  "exactFilePathMatch thePath f =
     (let filePathToCheck = js_or (js_or (filePath f) (path f)) (file f)
      in filePathToCheck = Some thePath)"

definition urlMatch :: "string \<Rightarrow> ik_file \<Rightarrow> bool" where
  "urlMatch imageUrl f =
     (let urlToCheck = js_or (url f) (webkitRelativePath f)
      in urlToCheck = Some imageUrl \<or>
         (case urlToCheck of None \<Rightarrow> False
          | Some s \<Rightarrow> s \<noteq> [] \<and> sublist (toString (lastElement (js_split CHR ''/'' s))) imageUrl))"

definition filenameMatch :: "string option \<Rightarrow> ik_file \<Rightarrow> bool" where
  "filenameMatch theName f =
     (let nameToCheck = js_or (name f) (fileName f);
          pathToCheck = js_or (filePath f) (path f)
      in nameToCheck = theName \<or>
         (case pathToCheck of None \<Rightarrow> False
          | Some s \<Rightarrow> s \<noteq> [] \<and> suffix (toString theName) s))"

text \<open>\<open>match && match.fileId\<close>, then \<open>return match.fileId\<close>.\<close>

definition matchedId :: "ik_file option \<Rightarrow> string option" where
  "matchedId m = (case m of None \<Rightarrow> None
                  | Some f \<Rightarrow> if truthy (fileId f) then fileId f else None)"

text \<open>
  The matching of Method 1 on the files of the folder: \<open>Some i\<close> when the function
  returns the identifier \<open>i\<close>, \<open>None\<close> when control falls through to Method 2.
\<close>

definition method1Match :: "string \<Rightarrow> string \<Rightarrow> string option \<Rightarrow> ik_file list \<Rightarrow> string option" where
  "method1Match imageUrl thePath theName fs =
     (if length fs > 0 then
        (case matchedId (find (exactFilePathMatch thePath) fs) of
           Some i \<Rightarrow> Some i
         | None \<Rightarrow>
             (case matchedId (find (urlMatch imageUrl) fs) of
                Some i \<Rightarrow> Some i
              | None \<Rightarrow> matchedId (find (filenameMatch theName) fs)))
      else None)"

text \<open>The filter of Method 2 on all files, and the choice of \<open>matchingFiles[0]\<close>.\<close>

definition anyMatch :: "string \<Rightarrow> string \<Rightarrow> string option \<Rightarrow> ik_file \<Rightarrow> bool" where
  "anyMatch imageUrl thePath theName f =
     (let filePathToCheck = js_or (js_or (js_or (filePath f) (path f)) (file f)) (Some []);
          urlToCheck = js_or (url f) (Some []);
          nameToCheck = js_or (js_or (name f) (fileName f)) (Some [])
      in filePathToCheck = Some thePath \<or>
         urlToCheck = Some imageUrl \<or>
         nameToCheck = theName \<or>
         (case filePathToCheck of None \<Rightarrow> False
          | Some s \<Rightarrow> s \<noteq> [] \<and> suffix (toString theName) s) \<or>
         (case urlToCheck of None \<Rightarrow> False
          | Some s \<Rightarrow> s \<noteq> [] \<and> sublist (toString (lastElement (js_split CHR ''/'' s))) imageUrl))"

definition method2Match :: "string \<Rightarrow> string \<Rightarrow> string option \<Rightarrow> ik_file list \<Rightarrow> string option" where
  "method2Match imageUrl thePath theName allFiles =
     (case filter (anyMatch imageUrl thePath theName) allFiles of
        [] \<Rightarrow> None
      | m # _ \<Rightarrow> if truthy (fileId m) then fileId m else None)"

text \<open>
  The two methods in sequence. An error of a list call is caught by the method's own
  \<open>catch\<close>, which logs and falls through.
\<close>

definition lookupFileId ::
  "'h imagekit_sdk \<Rightarrow> string \<Rightarrow> string \<Rightarrow> string option \<Rightarrow> string \<Rightarrow> 'h
     \<Rightarrow> (js_error + string option) \<times> 'h \<times> event list" where
  "lookupFileId sdk imageUrl thePath theName folderPath h =
     (case call_listFiles sdk (Some folderPath) h of
        (r1, h1, e1) \<Rightarrow>
          (case (case r1 of Inl pathError \<Rightarrow> None
                 | Inr listResponse \<Rightarrow>
                     method1Match imageUrl thePath theName (responseFiles listResponse)) of
             Some i \<Rightarrow> (Inr (Some i), h1, e1)
           | None \<Rightarrow>
               (case call_listFiles sdk None h1 of
                  (r2, h2, e2) \<Rightarrow>
                    (case (case r2 of Inl allError \<Rightarrow> None
                           | Inr allResponse \<Rightarrow>
                               method2Match imageUrl thePath theName (responseFiles allResponse)) of
                       Some i \<Rightarrow> (Inr (Some i), h2, e1 @ e2)
                     | None \<Rightarrow> (Inr None, h2, e1 @ e2)))))"

definition getImageKitFileId ::
  "runtime \<Rightarrow> 'h imagekit_sdk \<Rightarrow> string option \<Rightarrow> 'h
     \<Rightarrow> (js_error + string option) \<times> 'h \<times> event list" where
  "getImageKitFileId rt sdk imageUrl h =
     (case imageUrl of None \<Rightarrow> (Inr None, h, [])
      | Some s \<Rightarrow>
          if s = [] then (Inr None, h, [])
          else (case extractImageKitFilePath rt imageUrl of
                  None \<Rightarrow> (Inr None, h, [])
                | Some thePath \<Rightarrow>
                    if thePath = [] then (Inr None, h, [])
                    else (let pathParts = filter (\<lambda>p. p \<noteq> []) (js_split CHR ''/'' thePath);
                              theName = lastElement pathParts;
                              folderPath = (if length pathParts > 1
                                            then ''/'' @ js_join ''/'' (butlast pathParts)
                                            else ''/'')
                          in (case lookupFileId sdk s thePath theName folderPath h of
                                (Inl listError, h', es) \<Rightarrow> (Inr None, h', es)
                              | (Inr r, h', es) \<Rightarrow> (Inr r, h', es)))))"

text \<open>
  The folder that \<open>getImageKitFileId\<close> queries for an extracted path: its
  \<open>folderPath\<close>, by the same expression.
\<close>

definition folderPathOf :: "string \<Rightarrow> string" where
  "folderPathOf thePath =
     (let pathParts = filter (\<lambda>p. p \<noteq> []) (js_split CHR ''/'' thePath)
      in if length pathParts > 1 then ''/'' @ js_join ''/'' (butlast pathParts) else ''/'')"

subsection \<open>deleteImageFromImageKit\<close>

text \<open>The body of the \<open>try\<close> block; the function itself adds the \<open>catch\<close>.\<close>

definition deleteImageBody ::
  "runtime \<Rightarrow> 'h imagekit_sdk \<Rightarrow> string option \<Rightarrow> 'h \<Rightarrow> (js_error + bool) \<times> 'h \<times> event list" where
  "deleteImageBody rt sdk fileIdOrUrl h =
     (case fileIdOrUrl of None \<Rightarrow> (Inr False, h, [])
      | Some s \<Rightarrow>
          if s = [] then (Inr False, h, [])
          else if isImageKitUrl rt fileIdOrUrl then
            (case getImageKitFileId rt sdk fileIdOrUrl h of
               (Inl e, h1, e1) \<Rightarrow> (Inl e, h1, Attempting s # e1)
             | (Inr found, h1, e1) \<Rightarrow>
                 (case found of None \<Rightarrow> (Inr False, h1, Attempting s # e1)
                  | Some i \<Rightarrow>
                      if i = [] then (Inr False, h1, Attempting s # e1)
                      else (case call_deleteFile sdk i h1 of
                              (Inl e, h2, e2) \<Rightarrow> (Inl e, h2, Attempting s # e1 @ e2)
                            | (Inr deleteResult, h2, e2) \<Rightarrow>
                                (Inr True, h2, Attempting s # e1 @ e2))))
          else (case call_deleteFile sdk s h of
                  (Inl e, h2, e2) \<Rightarrow> (Inl e, h2, Attempting s # e2)
                | (Inr deleteResult, h2, e2) \<Rightarrow> (Inr True, h2, Attempting s # e2)))"

definition deleteImageFromImageKit ::
  "runtime \<Rightarrow> 'h imagekit_sdk \<Rightarrow> string option \<Rightarrow> 'h \<Rightarrow> (js_error + bool) \<times> 'h \<times> event list" where
  "deleteImageFromImageKit rt sdk fileIdOrUrl h =
     (case deleteImageBody rt sdk fileIdOrUrl h of
        (Inl error, h', es) \<Rightarrow> (Inr False, h', es)
      | (Inr b, h', es) \<Rightarrow> (Inr b, h', es))"

section \<open>Product photo clean-up\<close>

text \<open>
  Modelled from the spec: \<open>deleteImageFiles\<close> of controllers/productController.js is
  not among the sources. Following the spec's 4.3 and the repository's own note on
  batch deletion, it deletes the given images in sequence, one
  \<open>deleteImageFromImageKit\<close> call each, records the outcome of every item, and goes
  on after an item that failed. An exception of a call would leave the loop.
\<close>

fun deleteImageFiles ::
  "runtime \<Rightarrow> 'h imagekit_sdk \<Rightarrow> string list \<Rightarrow> 'h
     \<Rightarrow> (js_error + (string \<times> bool) list) \<times> 'h \<times> event list" where
  "deleteImageFiles rt sdk [] h = (Inr [], h, [])"
| "deleteImageFiles rt sdk (img # imgs) h =
     (case deleteImageFromImageKit rt sdk (Some img) h of
        (Inl e, h1, e1) \<Rightarrow> (Inl e, h1, e1)
      | (Inr ok, h1, e1) \<Rightarrow>
          (case deleteImageFiles rt sdk imgs h1 of
             (Inl e, h2, e2) \<Rightarrow> (Inl e, h2, e1 @ e2)
           | (Inr report, h2, e2) \<Rightarrow> (Inr ((img, ok) # report), h2, e1 @ e2)))"

text \<open>
  The comparison of \<open>updateProduct\<close>, as the repository's deletion guide quotes it:
  \<open>forEach\<close> over the existing photos, pushing on \<open>imagesToDelete\<close> (empty
  before) those that are ImageKit URLs and not in the set of photos to keep, then
  \<open>deleteImageFiles\<close> on the result.
\<close>

definition imagesToDelete :: "runtime \<Rightarrow> string list \<Rightarrow> string list \<Rightarrow> string list" where
  "imagesToDelete rt existingPhotos existingPhotosToKeep =
     foldl (\<lambda>marked existing.
              if isImageKitUrl rt (Some existing) \<and> existing \<notin> set existingPhotosToKeep
              then marked @ [existing] else marked)
           [] existingPhotos"

definition reconcile ::
  "runtime \<Rightarrow> 'h imagekit_sdk \<Rightarrow> string list \<Rightarrow> string list \<Rightarrow> 'h
     \<Rightarrow> (js_error + (string \<times> bool) list) \<times> 'h \<times> event list" where
  "reconcile rt sdk existingPhotos existingPhotosToKeep h =
     deleteImageFiles rt sdk (imagesToDelete rt existingPhotos existingPhotosToKeep) h"

section \<open>utils/imagekitUpload.js: uploadImageToImageKit\<close>

text \<open>
  The file handed to the upload: a \<open>Buffer\<close>, or a multer file object with its
  \<open>originalname\<close>, whether it has a \<open>buffer\<close> (it has one under the memory storage
  of routes/logoRoutes.js), and its \<open>path\<close> on disk with the message of the error
  that \<open>readFileSync\<close> of that path throws, if it throws. The bytes themselves are
  left out.
\<close>

record multer_file =
  originalname :: "string option"
  buffer :: bool
  diskPath :: "string option"
  diskReadError :: "string option"

datatype upload_input = BufferInput | MulterFile multer_file

text \<open>The object the function returns, without its numeric properties.\<close>

record upload_result =
  up_url :: "string option"
  up_fileId :: "string option"
  up_filePath :: "string option"
  up_name :: "string option"

definition uploadImageToImageKit ::
  "'h imagekit_sdk \<Rightarrow> upload_input \<Rightarrow> string \<Rightarrow> string \<Rightarrow> 'h
     \<Rightarrow> (js_error + upload_result) \<times> 'h \<times> event list" where
  "uploadImageToImageKit sdk input fName folder h =
     (let fromFile = (\<lambda>f. case originalname f of None \<Rightarrow> fName
                           | Some n \<Rightarrow> if n = [] then fName else n);
          originalFileName =
            (case input of
               BufferInput \<Rightarrow> Inr fName
             | MulterFile f \<Rightarrow>
                 if buffer f then Inr (fromFile f)
                 else if truthy (diskPath f) then
                   (case diskReadError f of None \<Rightarrow> Inr (fromFile f)
                    | Some msg \<Rightarrow> Inl (Error msg))
                 else Inl (Error ''Invalid file format. Expected buffer or multer file object.''))
      in case originalFileName of
           Inl (Error msg) \<Rightarrow>
             (Inl (Error (''Failed to upload image to ImageKit: '' @ msg)), h, [])
         | Inr n \<Rightarrow>
             (case call_upload sdk n folder h of
                (Inl (Error msg), h', es) \<Rightarrow>
                  (Inl (Error (''Failed to upload image to ImageKit: '' @ msg)), h', es)
              | (Inr result, h', es) \<Rightarrow>
                  (Inr \<lparr>up_url = url result, up_fileId = fileId result,
                        up_filePath = filePath result, up_name = name result\<rparr>, h', es)))"

section \<open>controllers/logoController.js\<close>

text \<open>
  The two module variables. Each handler is modelled without its outermost \<open>catch\<close>:
  on a request whose body properties are strings or absent, the code that only that
  \<open>catch\<close> guards does not throw.
\<close>

record logo_state =
  currentLogoUrl :: "string option"
  currentLogoFileId :: "string option"

definition initialLogoState :: logo_state where
  "initialLogoState = \<lparr>currentLogoUrl = None, currentLogoFileId = None\<rparr>"

text \<open>\<open>req.file\<close>, \<open>req.body.logoBase64\<close> and \<open>req.body.fileName\<close>.\<close>

record upload_request =
  req_file :: "multer_file option"
  req_logoBase64 :: "string option"
  req_fileName :: "string option"

text \<open>The JSON response: the status and the properties the handlers set.\<close>

record response =
  res_status :: nat
  res_success :: bool
  res_text :: string
  res_details :: "string option"
  res_url :: "string option"
  res_fileId :: "string option"

text \<open>
  The first match of \<open>/data:image\/(\w+);base64,/\<close> in a string, as its captured
  group. A word character cannot be \<open>;\<close>, so the group is the longest run of word
  characters after \<open>data:image/\<close>.
\<close>

definition isWordChar :: "char \<Rightarrow> bool" where
  "isWordChar c =
     (c \<in> set (''abcdefghijklmnopqrstuvwxyz'' @ ''ABCDEFGHIJKLMNOPQRSTUVWXYZ'' @ ''0123456789_''))"

definition dataUrlMatchHere :: "string \<Rightarrow> string option" where
  "dataUrlMatchHere s =
     (if prefix ''data:image/'' s then
        (let rest = drop (length ''data:image/'') s;
             ext = takeWhile isWordChar rest
         in if ext \<noteq> [] \<and> prefix '';base64,'' (dropWhile isWordChar rest) then Some ext
            else None)
      else None)"

fun dataUrlMatch :: "string \<Rightarrow> string option" where
  "dataUrlMatch [] = None"
| "dataUrlMatch (c # cs) =
     (case dataUrlMatchHere (c # cs) of Some ext \<Rightarrow> Some ext | None \<Rightarrow> dataUrlMatch cs)"

definition finalFileName :: "upload_request \<Rightarrow> string" where
  "finalFileName req =
     (let original = (case req_file req of None \<Rightarrow> None | Some f \<Rightarrow> originalname f)
      in if truthy (req_fileName req) then toString (req_fileName req)
         else if truthy original then
           ''app-logo.'' @
             toString (js_or (lastElement (js_split CHR ''.'' (toString original))) (Some ''png''))
         else if truthy (req_logoBase64 req) then
           (case dataUrlMatch (toString (req_logoBase64 req)) of
              Some ext \<Rightarrow> ''app-logo.'' @ ext
            | None \<Rightarrow> ''app-logo.png'')
         else ''app-logo'')"

text \<open>What \<open>uploadLogo\<close> hands to the upload: the decoded buffer, else the file.\<close>

definition uploadInput :: "upload_request \<Rightarrow> upload_input option" where
  "uploadInput req =
     (if truthy (req_logoBase64 req) then Some BufferInput
      else (case req_file req of Some f \<Rightarrow> Some (MulterFile f) | None \<Rightarrow> None))"

definition uploadLogo ::
  "runtime \<Rightarrow> 'h imagekit_sdk \<Rightarrow> upload_request \<Rightarrow> logo_state \<Rightarrow> 'h
     \<Rightarrow> response \<times> logo_state \<times> 'h \<times> event list" where
  "uploadLogo rt sdk req st h =
     (case uploadInput req of
        None \<Rightarrow>
          (\<lparr>res_status = 400, res_success = False,
            res_text = ''Logo image is required. Provide either a file upload (multipart/form-data) or base64 string (application/json).'',
            res_details = None, res_url = None, res_fileId = None\<rparr>, st, h, [])
      | Some input \<Rightarrow>
          (case uploadImageToImageKit sdk input (finalFileName req) ''/app-assets'' h of
             (Inl (Error msg), h1, e1) \<Rightarrow>
               (\<lparr>res_status = 500, res_success = False,
                 res_text = ''Failed to upload logo to ImageKit'',
                 res_details = Some msg, res_url = None, res_fileId = None\<rparr>, st, h1, e1)
           | (Inr uploadResult, h1, e1) \<Rightarrow>
               (case (if truthy (currentLogoFileId st) \<and> truthy (currentLogoUrl st)
                      then (case deleteImageFromImageKit rt sdk (currentLogoFileId st) h1 of
                              (Inl deleteError, h2, e2) \<Rightarrow> (h2, e2)
                            | (Inr deleted, h2, e2) \<Rightarrow> (h2, e2))
                      else (h1, [])) of
                  (h2, e2) \<Rightarrow>
                    (\<lparr>res_status = 200, res_success = True,
                      res_text = ''Logo uploaded successfully to ImageKit'',
                      res_details = None, res_url = up_url uploadResult,
                      res_fileId = up_fileId uploadResult\<rparr>,
                     \<lparr>currentLogoUrl = up_url uploadResult,
                      currentLogoFileId = up_fileId uploadResult\<rparr>,
                     h2, e1 @ e2))))"

definition getLogo :: "logo_state \<Rightarrow> response \<times> logo_state" where
  "getLogo st =
     (if \<not> truthy (currentLogoUrl st) then
        (\<lparr>res_status = 404, res_success = False, res_text = ''No logo has been uploaded yet'',
          res_details = None, res_url = None, res_fileId = None\<rparr>, st)
      else
        (\<lparr>res_status = 200, res_success = True, res_text = [],
          res_details = None, res_url = currentLogoUrl st,
          res_fileId = currentLogoFileId st\<rparr>, st))"

definition deleteLogo ::
  "runtime \<Rightarrow> 'h imagekit_sdk \<Rightarrow> logo_state \<Rightarrow> 'h \<Rightarrow> response \<times> logo_state \<times> 'h \<times> event list" where
  "deleteLogo rt sdk st h =
     (if \<not> truthy (currentLogoFileId st) \<or> \<not> truthy (currentLogoUrl st) then
        (\<lparr>res_status = 404, res_success = False, res_text = ''No logo to delete'',
          res_details = None, res_url = None, res_fileId = None\<rparr>, st, h, [])
      else
        (case deleteImageFromImageKit rt sdk (currentLogoFileId st) h of
           (Inl (Error msg), h', es) \<Rightarrow>
             (\<lparr>res_status = 500, res_success = False,
               res_text = ''Failed to delete logo from ImageKit'',
               res_details = Some msg, res_url = None, res_fileId = None\<rparr>, st, h', es)
         | (Inr deleted, h', es) \<Rightarrow>
             (\<lparr>res_status = 200, res_success = True,
               res_text = ''Logo deleted successfully from ImageKit'',
               res_details = None, res_url = currentLogoUrl st, res_fileId = None\<rparr>,
              \<lparr>currentLogoUrl = None, currentLogoFileId = None\<rparr>, h', es)))"

text \<open>The three routes of routes/logoRoutes.js, and a server handling requests in turn.\<close>

datatype logo_request = PostUpload upload_request | GetLogo | DeleteLogo

definition handle ::
  "runtime \<Rightarrow> 'h imagekit_sdk \<Rightarrow> logo_request \<Rightarrow> logo_state \<times> 'h \<Rightarrow> response \<times> logo_state \<times> 'h" where
  "handle rt sdk rq sh =
     (case sh of (st, h) \<Rightarrow>
        (case rq of
           PostUpload req \<Rightarrow>
             (case uploadLogo rt sdk req st h of (res, st', h', es) \<Rightarrow> (res, st', h'))
         | GetLogo \<Rightarrow> (case getLogo st of (res, st') \<Rightarrow> (res, st', h))
         | DeleteLogo \<Rightarrow>
             (case deleteLogo rt sdk st h of (res, st', h', es) \<Rightarrow> (res, st', h'))))"

fun serve :: "runtime \<Rightarrow> 'h imagekit_sdk \<Rightarrow> logo_request list \<Rightarrow> logo_state \<times> 'h \<Rightarrow> logo_state \<times> 'h" where
  "serve rt sdk [] sh = sh"
| "serve rt sdk (rq # rqs) sh = serve rt sdk rqs (snd (handle rt sdk rq sh))"

section \<open>The claimed matching order, and sample runtimes and hosts\<close>

text \<open>
  The order of matching as the specification words it, for comparison with
  \<open>method1Match\<close>: exact stored path, then exact URL, then exact file name, then the
  stored path ending with the file name; within a method, the first entry of the list.
\<close>

definition specPriorityMatch :: "string \<Rightarrow> string \<Rightarrow> string \<Rightarrow> ik_file list \<Rightarrow> ik_file option" where
  "specPriorityMatch imageUrl thePath theName fs =
     (case find (\<lambda>f. filePath f = Some thePath) fs of
        Some f \<Rightarrow> Some f
      | None \<Rightarrow>
          (case find (\<lambda>f. url f = Some imageUrl) fs of
             Some f \<Rightarrow> Some f
           | None \<Rightarrow>
               (case find (\<lambda>f. name f = Some theName) fs of
                  Some f \<Rightarrow> Some f
                | None \<Rightarrow>
                    find (\<lambda>f. case filePath f of None \<Rightarrow> False
                                | Some s \<Rightarrow> suffix theName s) fs)))"

text \<open>
  A stand-in for the platform's URL parser in the examples: the path of a plain
  \<open>http\<close> or \<open>https\<close> URL (no credentials, port, dot segments or escapes), and a
  thrown error for a string without such a scheme.
\<close>

definition simple_URL_pathname :: "string \<Rightarrow> string option" where
  "simple_URL_pathname s =
     (let pathOf = (\<lambda>rest.
            let p = takeWhile (\<lambda>c. c \<noteq> CHR ''?'' \<and> c \<noteq> CHR ''#'')
                      (dropWhile (\<lambda>c. c \<noteq> CHR ''/'') rest)
            in if p = [] then ''/'' else p)
      in if prefix ''https://'' s then Some (pathOf (drop (length ''https://'') s))
         else if prefix ''http://'' s then Some (pathOf (drop (length ''http://'') s))
         else None)"

definition sample_runtime :: "string option \<Rightarrow> runtime" where
  "sample_runtime endpoint =
     \<lparr>IMAGEKIT_URL_ENDPOINT = endpoint, URL_pathname = simple_URL_pathname\<rparr>"

text \<open>
  A host with scripted answers: one for a folder-scoped listing, one for the unscoped
  listing, the identifiers it can delete, and its answer to an upload. Its state counts
  the calls it has served.
\<close>

definition sample_sdk ::
  "(js_error + list_response) \<Rightarrow> (js_error + list_response) \<Rightarrow> string list
     \<Rightarrow> (js_error + ik_file) \<Rightarrow> nat imagekit_sdk" where
  "sample_sdk folderAnswer allAnswer deletable uploadAnswer =
     \<lparr>listFiles = (\<lambda>p h. (case p of Some folder \<Rightarrow> folderAnswer | None \<Rightarrow> allAnswer, Suc h)),
      deleteFile = (\<lambda>i h. (if i \<in> set deletable then Inr ()
                            else Inl (Error ''The requested file does not exist.''), Suc h)),
      upload = (\<lambda>n folder h. (uploadAnswer, Suc h))\<rparr>"

text \<open>A host on which one folder can be listed (it is empty) and nothing else works.\<close>

definition only_folder_sdk :: "string \<Rightarrow> nat imagekit_sdk" where
  "only_folder_sdk listed =
     \<lparr>listFiles = (\<lambda>p h. (if p = Some listed then Inr (RespArray [])
                            else Inl (Error ''Request failed''), Suc h)),
      deleteFile = (\<lambda>i h. (Inl (Error ''Request failed''), Suc h)),
      upload = (\<lambda>n folder h. (Inl (Error ''Request failed''), Suc h))\<rparr>"

definition sample_file :: "string \<Rightarrow> string \<Rightarrow> string \<Rightarrow> string \<Rightarrow> ik_file" where
  "sample_file i p u n =
     \<lparr>fileId = Some i, filePath = Some p, path = None, file = None, url = Some u,
      webkitRelativePath = None, name = Some n, fileName = None\<rparr>"

definition listFailure :: "js_error + list_response" where
  "listFailure = Inl (Error ''Request failed'')"

text \<open>The invariant of the logo state, and the assumption on the host's uploads.\<close>

definition bothOrNeither :: "logo_state \<Rightarrow> bool" where
  "bothOrNeither st = ((currentLogoUrl st = None) = (currentLogoFileId st = None))"

definition uploadsCarryBoth :: "'h imagekit_sdk \<Rightarrow> bool" where
  "uploadsCarryBoth sdk =
     (\<forall>n folder h r h'. upload sdk n folder h = (Inr r, h') \<longrightarrow> url r \<noteq> None \<and> fileId r \<noteq> None)"

section \<open>Properties\<close>

lemma js_split_not_Nil: "js_split c s \<noteq> []"
  by (induction s) (auto split: list.splits)

subsection \<open>Traces\<close>

lemma attempts_append: "attempts (xs @ ys) = attempts xs @ attempts ys"
  by (induction xs rule: attempts.induct) simp_all

lemma deletes_append: "deletes (xs @ ys) = deletes xs @ deletes ys"
  by (induction xs rule: deletes.induct) simp_all

lemma lookupFileId_cases:
  "\<exists>r h' ok1 ok2. lookupFileId sdk u p n fo h = (Inr r, h', [Called (ListFiles (Some fo)) ok1])
     \<or> lookupFileId sdk u p n fo h = (Inr r, h', [Called (ListFiles (Some fo)) ok1, Called (ListFiles None) ok2])"
  by (auto simp: lookupFileId_def call_listFiles_def split: prod.splits option.splits sum.splits)

lemma lookupFileId_returns: "\<exists>r. fst (lookupFileId sdk u p n fo h) = Inr r"
  using lookupFileId_cases[of sdk u p n fo h] by auto

lemma catch_unused:
  "\<exists>r. fst x = Inr r \<Longrightarrow>
     (case x of (Inl e, h', es) \<Rightarrow> (Inr d, h', es) | (Inr r, h', es) \<Rightarrow> (Inr r, h', es)) = x"
  by (cases x) (auto split: sum.splits)

lemma getImageKitFileId_cases:
  "getImageKitFileId rt sdk u h = (Inr None, h, []) \<or>
   (\<exists>s p n fo. u = Some s \<and> getImageKitFileId rt sdk u h = lookupFileId sdk s p n fo h)"
  by (simp add: getImageKitFileId_def Let_def catch_unused lookupFileId_returns split: option.splits)
    blast

lemma getImageKitFileId_trace:
  "\<exists>r h' es. getImageKitFileId rt sdk u h = (Inr r, h', es) \<and> attempts es = [] \<and> deletes es = []
      \<and> (\<forall>i ok. Called (DeleteFile i) ok \<notin> set es)"
proof -
  from getImageKitFileId_cases[of rt sdk u h] show ?thesis
  proof
    assume "getImageKitFileId rt sdk u h = (Inr None, h, [])"
    then show ?thesis by simp
  next
    assume "\<exists>s p n fo. u = Some s \<and> getImageKitFileId rt sdk u h = lookupFileId sdk s p n fo h"
    then obtain s p n fo where eq: "getImageKitFileId rt sdk u h = lookupFileId sdk s p n fo h"
      by blast
    from lookupFileId_cases[of sdk s p n fo h] show ?thesis
      unfolding eq by auto
  qed
qed

lemma call_deleteFile_trace:
  "\<exists>r h'. call_deleteFile sdk i h = (r, h', [Called (DeleteFile i) (\<not> isl r)])
      \<and> deleteFile sdk i h = (r, h')"
  by (auto simp: call_deleteFile_def split: prod.splits)

lemma deleteImageFromImageKit_trace:
  "\<exists>b h' es. deleteImageFromImageKit rt sdk arg h = (Inr b, h', es)
      \<and> attempts es = (if truthy arg then [toString arg] else [])
      \<and> length (deletes es) \<le> 1
      \<and> (b \<longleftrightarrow> (\<exists>i. Called (DeleteFile i) True \<in> set es))"
proof (cases "truthy arg")
  case False
  then show ?thesis
    by (auto simp: deleteImageFromImageKit_def deleteImageBody_def truthy_def split: option.splits)
next
  case True
  then obtain s where arg: "arg = Some s" and s: "s \<noteq> []"
    by (auto simp: truthy_def split: option.splits)
  show ?thesis
  proof (cases "isImageKitUrl rt arg")
    case False
    from call_deleteFile_trace[of sdk s h] obtain r h' where
      c: "call_deleteFile sdk s h = (r, h', [Called (DeleteFile s) (\<not> isl r)])" by blast
    show ?thesis using False arg s c True
      by (cases r) (auto simp: deleteImageFromImageKit_def deleteImageBody_def toString_def)
  next
    case hosted: True
    from getImageKitFileId_trace[of rt sdk arg h] obtain found h1 e1 where
      g: "getImageKitFileId rt sdk arg h = (Inr found, h1, e1)" and a1: "attempts e1 = []"
      and d1: "deletes e1 = []" and n1: "\<forall>i ok. Called (DeleteFile i) ok \<notin> set e1" by blast
    show ?thesis
    proof (cases "truthy found")
      case False
      then show ?thesis using hosted arg s g a1 d1 n1 True
        by (auto simp: deleteImageFromImageKit_def deleteImageBody_def toString_def truthy_def
            split: option.splits)
    next
      case True
      then obtain i where found: "found = Some i" and i: "i \<noteq> []"
        by (auto simp: truthy_def split: option.splits)
      from call_deleteFile_trace[of sdk i h1] obtain r h' where
        c: "call_deleteFile sdk i h1 = (r, h', [Called (DeleteFile i) (\<not> isl r)])" by blast
      show ?thesis using hosted arg s g a1 d1 n1 found i c \<open>truthy arg\<close>
        by (cases r) (auto simp: deleteImageFromImageKit_def deleteImageBody_def toString_def
            attempts_append deletes_append)
    qed
  qed
qed

subsection \<open>Host recognition\<close>

text \<open>
  C7. A string is classified as hosted exactly when the endpoint is configured (a
  non-empty value of the environment variable) and the string contains the endpoint,
  compared character by character, or starts with \<open>https://ik.imagekit.io/\<close>.
  Without a configured endpoint no string is hosted, one on the provider's own domain
  included.
\<close>

theorem isImageKitUrl_iff:
  "(isImageKitUrl rt (Some u) \<longleftrightarrow>
      (\<exists>e. IMAGEKIT_URL_ENDPOINT rt = Some e \<and> e \<noteq> [] \<and>
           (sublist e u \<or> prefix ''https://ik.imagekit.io/'' u))) \<and>
   (\<not> truthy (IMAGEKIT_URL_ENDPOINT rt) \<longrightarrow>
      \<not> isImageKitUrl rt (Some u) \<and> \<not> isImageKitUrl rt (Some (''https://ik.imagekit.io/'' @ u)))"
  by (auto simp: isImageKitUrl_def truthy_def split: option.splits)

theorem isImageKitUrl_iff_witness:
  "isImageKitUrl (sample_runtime (Some ''https://ik.example.io/acct''))
     (Some ''https://ik.example.io/acct/app-assets/app-logo.png'') \<and>
   \<not> isImageKitUrl (sample_runtime (Some ''https://ik.example.io/acct''))
     (Some ''https://IK.EXAMPLE.IO/acct/app-assets/app-logo.png'') \<and>
   \<not> isImageKitUrl (sample_runtime None)
     (Some ''https://ik.example.io/acct/app-assets/app-logo.png'') \<and>
   \<not> isImageKitUrl (sample_runtime None)
     (Some (''https://ik.imagekit.io/'' @ ''https://ik.example.io/acct/app-assets/app-logo.png''))"
proof -
  have e: "sublist ''https://ik.example.io/acct''
             ''https://ik.example.io/acct/app-assets/app-logo.png''"
    by (rule prefix_imp_sublist) simp
  have c: "\<not> sublist ''https://ik.example.io/acct''
             ''https://IK.EXAMPLE.IO/acct/app-assets/app-logo.png''"
    by code_simp
  have n: "\<not> truthy (IMAGEKIT_URL_ENDPOINT (sample_runtime None))"
    by (simp add: sample_runtime_def truthy_def)
  show ?thesis
    using isImageKitUrl_iff[of "sample_runtime (Some ''https://ik.example.io/acct'')"
                 "''https://ik.example.io/acct/app-assets/app-logo.png''"]
          isImageKitUrl_iff[of "sample_runtime (Some ''https://ik.example.io/acct'')"
                 "''https://IK.EXAMPLE.IO/acct/app-assets/app-logo.png''"]
          isImageKitUrl_iff[of "sample_runtime None"
                 "''https://ik.example.io/acct/app-assets/app-logo.png''"] e c n
    by (simp add: sample_runtime_def)
qed

subsection \<open>Deletion\<close>

lemma isImageKitUrl_nonempty: "isImageKitUrl rt (Some s) \<Longrightarrow> s \<noteq> []"
  by (auto simp: isImageKitUrl_def)

lemma imagesToDelete_filter:
  "imagesToDelete rt current keep = [u \<leftarrow> current. isImageKitUrl rt (Some u) \<and> u \<notin> set keep]"
proof -
  have "foldl (\<lambda>marked existing.
              if isImageKitUrl rt (Some existing) \<and> existing \<notin> set keep
              then marked @ [existing] else marked) acc current
        = acc @ [u \<leftarrow> current. isImageKitUrl rt (Some u) \<and> u \<notin> set keep]" for acc
    by (induction current arbitrary: acc) simp_all
  then show ?thesis by (simp add: imagesToDelete_def)
qed

text \<open>
  C9. Given a non-empty string that is not classified as hosted,
  \<open>deleteImageFromImageKit\<close> does not skip it: its one call on the host is
  \<open>deleteFile\<close> with the string itself, and its result is whether that call succeeded.
  The filter on hosted URLs is in the caller: such a string is never among the images
  that \<open>updateProduct\<close> marks for deletion.
\<close>

theorem deleteImageFromImageKit_not_hosted:
  assumes "s \<noteq> []" and "\<not> isImageKitUrl rt (Some s)"
  shows "deleteImageFromImageKit rt sdk (Some s) h =
           (Inr (\<not> isl (fst (deleteFile sdk s h))), snd (deleteFile sdk s h),
            [Attempting s, Called (DeleteFile s) (\<not> isl (fst (deleteFile sdk s h)))])
         \<and> s \<notin> set (imagesToDelete rt current keep)"
  using assms
  by (cases "deleteFile sdk s h")
     (auto simp: deleteImageFromImageKit_def deleteImageBody_def call_deleteFile_def
           imagesToDelete_filter split: sum.splits)

theorem deleteImageFromImageKit_not_hosted_witness:
  "deleteImageFromImageKit (sample_runtime (Some ''https://ik.example.io/acct''))
      (sample_sdk listFailure listFailure [] (Inl (Error ''unused'')))
      (Some ''https://cdn.example.org/p1.jpg'') 0 =
     (Inr False, 1, [Attempting ''https://cdn.example.org/p1.jpg'',
                     Called (DeleteFile ''https://cdn.example.org/p1.jpg'') False])"
proof -
  have 1: "''https://cdn.example.org/p1.jpg'' \<noteq> []" by simp
  have 2: "\<not> isImageKitUrl (sample_runtime (Some ''https://ik.example.io/acct''))
               (Some ''https://cdn.example.org/p1.jpg'')"
    by code_simp
  show ?thesis
    using deleteImageFromImageKit_not_hosted[OF 1 2,
            of "sample_sdk listFailure listFailure [] (Inl (Error ''unused''))" 0 "[]" "[]"]
    by (simp add: sample_sdk_def)
qed

lemma deleteImageFiles_trace:
  "\<exists>report h' es. deleteImageFiles rt sdk imgs h = (Inr report, h', es)
      \<and> map fst report = imgs
      \<and> attempts es = [s \<leftarrow> imgs. s \<noteq> []]
      \<and> length (deletes es) \<le> length imgs"
proof (induction imgs arbitrary: h)
  case Nil
  show ?case by simp
next
  case (Cons img imgs)
  from deleteImageFromImageKit_trace[of rt sdk "Some img" h] obtain b h1 e1 where
    d: "deleteImageFromImageKit rt sdk (Some img) h = (Inr b, h1, e1)"
    and a: "attempts e1 = (if truthy (Some img) then [toString (Some img)] else [])"
    and l: "length (deletes e1) \<le> 1" by blast
  from Cons.IH[of h1] obtain report h2 e2 where
    r: "deleteImageFiles rt sdk imgs h1 = (Inr report, h2, e2)"
    and m: "map fst report = imgs" and a2: "attempts e2 = [s \<leftarrow> imgs. s \<noteq> []]"
    and l2: "length (deletes e2) \<le> length imgs" by blast
  show ?case using d a l r m a2 l2
    by (simp add: attempts_append deletes_append truthy_def toString_def)
qed

text \<open>
  C5. \<open>deleteImageFromImageKit\<close> always returns a boolean and never throws: \<open>true\<close>
  exactly when a \<open>deleteFile\<close> call on the host succeeded. So a sequential batch runs to
  its end whatever the outcome of each item: every image of the batch gets its entry in
  the report, and every non-empty one its delete attempt, in order.
\<close>

theorem deleteImageFromImageKit_boolean:
  "(\<exists>b h' es. deleteImageFromImageKit rt sdk arg h = (Inr b, h', es) \<and>
        (b \<longleftrightarrow> (\<exists>i. Called (DeleteFile i) True \<in> set es))) \<and>
   (\<exists>report h' es. deleteImageFiles rt sdk imgs h = (Inr report, h', es) \<and>
        map fst report = imgs \<and> attempts es = [s \<leftarrow> imgs. s \<noteq> []])"
  using deleteImageFromImageKit_trace[of rt sdk arg h] deleteImageFiles_trace[of rt sdk imgs h]
  by blast

theorem deleteImageFromImageKit_boolean_witness:
  "deleteImageFiles (sample_runtime None)
      (sample_sdk listFailure listFailure [''id-2''] (Inl (Error ''unused'')))
      [''id-1'', ''id-2''] 0 =
     (Inr [(''id-1'', False), (''id-2'', True)], 2,
      [Attempting ''id-1'', Called (DeleteFile ''id-1'') False,
       Attempting ''id-2'', Called (DeleteFile ''id-2'') True])"
  using deleteImageFromImageKit_boolean[of "sample_runtime None"
          "sample_sdk listFailure listFailure [''id-2''] (Inl (Error ''unused''))"
          "Some ''id-1''" 0 "[''id-1'', ''id-2'']"]
  by (simp add: deleteImageFromImageKit_def deleteImageBody_def isImageKitUrl_def
        sample_runtime_def sample_sdk_def call_deleteFile_def)

subsection \<open>The logo controller\<close>

text \<open>
  C8. \<open>deleteLogo\<close> never answers 500: \<open>deleteImageFromImageKit\<close> does not throw and
  its boolean is not read. Whenever a logo is tracked (both variables truthy) the answer
  is 200 and both variables are cleared, after one delete attempt on the tracked
  identifier, whatever the host did with it.
\<close>

theorem deleteLogo_never_500:
  "res_status (fst (deleteLogo rt sdk st h)) \<noteq> 500 \<and>
   (truthy (currentLogoFileId st) \<and> truthy (currentLogoUrl st) \<longrightarrow>
      (\<exists>res h' es. deleteLogo rt sdk st h =
            (res, \<lparr>currentLogoUrl = None, currentLogoFileId = None\<rparr>, h', es) \<and>
          res_status res = 200 \<and> res_success res \<and>
          attempts es = [toString (currentLogoFileId st)]))"
proof -
  from deleteImageFromImageKit_trace[of rt sdk "currentLogoFileId st" h] obtain b h' es where
    d: "deleteImageFromImageKit rt sdk (currentLogoFileId st) h = (Inr b, h', es)"
    and a: "attempts es = (if truthy (currentLogoFileId st) then [toString (currentLogoFileId st)] else [])"
    by blast
  show ?thesis using d a by (simp add: deleteLogo_def)
qed

theorem deleteLogo_never_500_witness:
  "deleteLogo (sample_runtime (Some ''https://ik.example.io/acct''))
      (sample_sdk listFailure listFailure [] (Inl (Error ''unused'')))
      \<lparr>currentLogoUrl = Some ''https://ik.example.io/acct/app-assets/app-logo.png'',
       currentLogoFileId = Some ''logo-1''\<rparr> 0 =
     (\<lparr>res_status = 200, res_success = True,
       res_text = ''Logo deleted successfully from ImageKit'', res_details = None,
       res_url = Some ''https://ik.example.io/acct/app-assets/app-logo.png'',
       res_fileId = None\<rparr>,
      \<lparr>currentLogoUrl = None, currentLogoFileId = None\<rparr>, 1,
      [Attempting ''logo-1'', Called (DeleteFile ''logo-1'') False])"
proof -
  have n: "\<not> isImageKitUrl (sample_runtime (Some ''https://ik.example.io/acct'')) (Some ''logo-1'')"
    by code_simp
  show ?thesis
    using deleteLogo_never_500[of "sample_runtime (Some ''https://ik.example.io/acct'')"
            "sample_sdk listFailure listFailure [] (Inl (Error ''unused''))"
            "\<lparr>currentLogoUrl = Some ''https://ik.example.io/acct/app-assets/app-logo.png'',
              currentLogoFileId = Some ''logo-1''\<rparr>" 0] n
    by (simp add: deleteLogo_def deleteImageFromImageKit_def deleteImageBody_def
          call_deleteFile_def sample_sdk_def truthy_def)
qed

lemma uploadImageToImageKit_trace:
  assumes "uploadImageToImageKit sdk input n folder h = (Inr r, h1, e1)"
  shows "\<exists>m result. upload sdk m folder h = (Inr result, h1) \<and> e1 = [Called (Upload m folder) True]
           \<and> up_url r = url result \<and> up_fileId r = fileId result"
  using assms
  by (auto simp: uploadImageToImageKit_def call_upload_def Let_def
        split: upload_input.splits if_splits sum.splits prod.splits js_error.splits option.splits)

lemma uploadLogo_keeps_invariant:
  assumes "uploadsCarryBoth sdk" and "bothOrNeither st"
  shows "bothOrNeither (fst (snd (uploadLogo rt sdk req st h)))"
proof (cases "uploadInput req")
  case None
  then show ?thesis using assms(2) by (simp add: uploadLogo_def)
next
  case (Some input)
  obtain r h1 e1 where u: "uploadImageToImageKit sdk input (finalFileName req) ''/app-assets'' h = (r, h1, e1)"
    by (cases "uploadImageToImageKit sdk input (finalFileName req) ''/app-assets'' h") auto
  show ?thesis
  proof (cases r)
    case (Inl e)
    then show ?thesis using Some u assms(2)
      by (cases e) (simp add: uploadLogo_def)
  next
    case (Inr uploadResult)
    from uploadImageToImageKit_trace[OF u[unfolded Inr]] assms(1)
    have "up_url uploadResult \<noteq> None \<and> up_fileId uploadResult \<noteq> None"
      unfolding uploadsCarryBoth_def by metis
    then show ?thesis using Some u Inr
      by (auto simp: uploadLogo_def bothOrNeither_def split: prod.splits)
  qed
qed

lemma handle_keeps_invariant:
  assumes "uploadsCarryBoth sdk" and "bothOrNeither st"
  shows "bothOrNeither (fst (snd (handle rt sdk rq (st, h))))"
proof (cases rq)
  case (PostUpload req)
  then show ?thesis using uploadLogo_keeps_invariant[OF assms, of rt req h]
    by (auto simp: handle_def split: prod.splits)
next
  case GetLogo
  then show ?thesis using assms(2) by (simp add: handle_def getLogo_def)
next
  case DeleteLogo
  then show ?thesis using assms(2)
    by (auto simp: handle_def deleteLogo_def bothOrNeither_def
          split: prod.splits sum.splits js_error.splits)
qed

lemma serve_keeps_invariant:
  assumes "uploadsCarryBoth sdk"
  shows "bothOrNeither st \<Longrightarrow> bothOrNeither (fst (serve rt sdk rqs (st, h)))"
proof (induction rqs arbitrary: st h)
  case Nil
  then show ?case by simp
next
  case (Cons rq rqs)
  obtain res st' h' where hd: "handle rt sdk rq (st, h) = (res, st', h')"
    by (cases "handle rt sdk rq (st, h)") auto
  with handle_keeps_invariant[OF assms Cons.prems, of rt rq h]
  have "bothOrNeither st'" by simp
  from Cons.IH[OF this, of h'] hd show ?case by simp
qed

text \<open>
  C10. When every upload that the host accepts answers with both a \<open>url\<close> and a
  \<open>fileId\<close>, the two variables of the logo controller are both null or both non-null
  at the start, after each handler that starts from such a state, and so after any
  sequence of requests served from the start.
\<close>

theorem logo_state_both_or_neither:
  assumes "uploadsCarryBoth sdk"
  shows "bothOrNeither initialLogoState \<and>
         (bothOrNeither st \<longrightarrow> bothOrNeither (fst (snd (handle rt sdk rq (st, h))))) \<and>
         bothOrNeither (fst (serve rt sdk rqs (initialLogoState, h)))"
proof -
  have i: "bothOrNeither initialLogoState"
    by (simp add: bothOrNeither_def initialLogoState_def)
  show ?thesis
    using i handle_keeps_invariant[OF assms, of st rt rq h] serve_keeps_invariant[OF assms i, of rt rqs h]
    by blast
qed

theorem logo_state_both_or_neither_witness:
  "uploadsCarryBoth
     (sample_sdk listFailure listFailure [''logo-1'']
        (Inr (sample_file ''logo-1'' ''/app-assets/app-logo.png''
                ''https://ik.example.io/acct/app-assets/app-logo.png'' ''app-logo.png''))) \<and>
   bothOrNeither initialLogoState \<and>
   bothOrNeither
     (fst (serve (sample_runtime (Some ''https://ik.example.io/acct''))
        (sample_sdk listFailure listFailure [''logo-1'']
           (Inr (sample_file ''logo-1'' ''/app-assets/app-logo.png''
                   ''https://ik.example.io/acct/app-assets/app-logo.png'' ''app-logo.png'')))
        [PostUpload \<lparr>req_file = None, req_logoBase64 = Some ''data:image/png;base64,iVBORw0KGgo='',
                      req_fileName = None\<rparr>, GetLogo, DeleteLogo]
        (initialLogoState, 0)))"
proof -
  have c: "uploadsCarryBoth
     (sample_sdk listFailure listFailure [''logo-1'']
        (Inr (sample_file ''logo-1'' ''/app-assets/app-logo.png''
                ''https://ik.example.io/acct/app-assets/app-logo.png'' ''app-logo.png'')))"
    by (auto simp: uploadsCarryBoth_def sample_sdk_def sample_file_def)
  show ?thesis
    using c logo_state_both_or_neither[OF c,
        of initialLogoState "sample_runtime (Some ''https://ik.example.io/acct'')" GetLogo 0
           "[PostUpload \<lparr>req_file = None, req_logoBase64 = Some ''data:image/png;base64,iVBORw0KGgo='',
                      req_fileName = None\<rparr>, GetLogo, DeleteLogo]"]
    by simp
qed

lemma serve_example:
  "fst (serve (sample_runtime (Some ''https://ik.example.io/acct''))
        (sample_sdk listFailure listFailure [''logo-1'']
           (Inr (sample_file ''logo-1'' ''/app-assets/app-logo.png''
                   ''https://ik.example.io/acct/app-assets/app-logo.png'' ''app-logo.png'')))
        [PostUpload \<lparr>req_file = None, req_logoBase64 = Some ''data:image/png;base64,iVBORw0KGgo='',
                      req_fileName = None\<rparr>, GetLogo]
        (initialLogoState, 0)) =
     \<lparr>currentLogoUrl = Some ''https://ik.example.io/acct/app-assets/app-logo.png'',
      currentLogoFileId = Some ''logo-1''\<rparr>"
  by code_simp

lemma deleteImageFromImageKit_identifier:
  assumes "s \<noteq> []" and "\<not> isImageKitUrl rt (Some s)"
  shows "deleteImageFromImageKit rt sdk (Some s) h =
           (Inr (\<not> isl (fst (deleteFile sdk s h))), snd (deleteFile sdk s h),
            [Attempting s, Called (DeleteFile s) (\<not> isl (fst (deleteFile sdk s h)))])"
  using assms
  by (cases "deleteFile sdk s h")
     (auto simp: deleteImageFromImageKit_def deleteImageBody_def call_deleteFile_def
           split: sum.splits)

text \<open>
  C6. When the upload of \<open>uploadLogo\<close> succeeds, the answer is 200 and the two
  variables hold the new asset's URL and identifier, whatever happened to the old one.
  If no logo was tracked, nothing follows the upload: no delete attempt and no further
  call on the host. If a logo was tracked, there is exactly one delete attempt, on the
  tracked identifier, and at most one \<open>deleteFile\<close> call, which is on that identifier
  unless the identifier is itself classified as a hosted URL.
\<close>

theorem uploadLogo_replaces_logo:
  assumes "uploadInput req = Some input"
    and "uploadImageToImageKit sdk input (finalFileName req) ''/app-assets'' h = (Inr r, h1, e1)"
  shows "\<exists>res h2 e2.
           uploadLogo rt sdk req st h =
             (res, \<lparr>currentLogoUrl = up_url r, currentLogoFileId = up_fileId r\<rparr>, h2, e1 @ e2) \<and>
           res_status res = 200 \<and> attempts e1 = [] \<and> deletes e1 = [] \<and>
           (if truthy (currentLogoFileId st) \<and> truthy (currentLogoUrl st)
            then attempts e2 = [toString (currentLogoFileId st)] \<and> length (deletes e2) \<le> 1 \<and>
                 (isImageKitUrl rt (currentLogoFileId st) \<or>
                  deletes e2 = [toString (currentLogoFileId st)])
            else e2 = [] \<and> h2 = h1)"
proof -
  from uploadImageToImageKit_trace[OF assms(2)]
  have e1: "attempts e1 = []" "deletes e1 = []" by auto
  show ?thesis
  proof (cases "truthy (currentLogoFileId st) \<and> truthy (currentLogoUrl st)")
    case False
    then show ?thesis using assms e1 by (auto simp: uploadLogo_def)
  next
    case True
    then obtain s where s: "currentLogoFileId st = Some s" "s \<noteq> []"
      by (auto simp: truthy_def split: option.splits)
    from deleteImageFromImageKit_trace[of rt sdk "currentLogoFileId st" h1] obtain b h2 e2 where
      d: "deleteImageFromImageKit rt sdk (currentLogoFileId st) h1 = (Inr b, h2, e2)"
      and a: "attempts e2 = [toString (currentLogoFileId st)]"
      and l: "length (deletes e2) \<le> 1"
      using True by auto
    have "isImageKitUrl rt (currentLogoFileId st) \<or> deletes e2 = [toString (currentLogoFileId st)]"
    proof (cases "isImageKitUrl rt (Some s)")
      case True
      then show ?thesis using s by simp
    next
      case False
      from deleteImageFromImageKit_identifier[OF s(2) False, of sdk h1] d s
      have "e2 = [Attempting s, Called (DeleteFile s) (\<not> isl (fst (deleteFile sdk s h1)))]"
        by auto
      then show ?thesis using s by (simp add: toString_def)
    qed
    then show ?thesis using assms e1 True d a l by (simp add: uploadLogo_def)
  qed
qed

theorem uploadLogo_replaces_logo_witness:
  "uploadLogo (sample_runtime (Some ''https://ik.example.io/acct''))
      (sample_sdk listFailure listFailure []
         (Inr (sample_file ''logo-2'' ''/app-assets/app-logo.png''
                 ''https://ik.example.io/acct/app-assets/app-logo.png'' ''app-logo.png'')))
      \<lparr>req_file = None, req_logoBase64 = Some ''data:image/png;base64,iVBORw0KGgo='',
        req_fileName = None\<rparr>
      \<lparr>currentLogoUrl = Some ''https://ik.example.io/acct/app-assets/old-logo.png'',
        currentLogoFileId = Some ''logo-1''\<rparr> 0 =
     (\<lparr>res_status = 200, res_success = True,
       res_text = ''Logo uploaded successfully to ImageKit'', res_details = None,
       res_url = Some ''https://ik.example.io/acct/app-assets/app-logo.png'',
       res_fileId = Some ''logo-2''\<rparr>,
      \<lparr>currentLogoUrl = Some ''https://ik.example.io/acct/app-assets/app-logo.png'',
       currentLogoFileId = Some ''logo-2''\<rparr>, 2,
      [Called (Upload ''app-logo.png'' ''/app-assets'') True,
       Attempting ''logo-1'', Called (DeleteFile ''logo-1'') False])"
proof -
  have i: "uploadInput \<lparr>req_file = None, req_logoBase64 = Some ''data:image/png;base64,iVBORw0KGgo='',
        req_fileName = None\<rparr> = Some BufferInput"
    by (simp add: uploadInput_def truthy_def)
  have f: "finalFileName \<lparr>req_file = None, req_logoBase64 = Some ''data:image/png;base64,iVBORw0KGgo='',
        req_fileName = None\<rparr> = ''app-logo.png''"
    by code_simp
  have u: "uploadImageToImageKit
      (sample_sdk listFailure listFailure []
         (Inr (sample_file ''logo-2'' ''/app-assets/app-logo.png''
                 ''https://ik.example.io/acct/app-assets/app-logo.png'' ''app-logo.png'')))
      BufferInput
      (finalFileName \<lparr>req_file = None, req_logoBase64 = Some ''data:image/png;base64,iVBORw0KGgo='',
        req_fileName = None\<rparr>) ''/app-assets'' 0 =
     (Inr \<lparr>up_url = Some ''https://ik.example.io/acct/app-assets/app-logo.png'',
           up_fileId = Some ''logo-2'', up_filePath = Some ''/app-assets/app-logo.png'',
           up_name = Some ''app-logo.png''\<rparr>, 1,
      [Called (Upload ''app-logo.png'' ''/app-assets'') True])"
    unfolding f
    by (simp add: uploadImageToImageKit_def call_upload_def sample_sdk_def sample_file_def)
  have n: "\<not> isImageKitUrl (sample_runtime (Some ''https://ik.example.io/acct'')) (Some ''logo-1'')"
    by code_simp
  have d: "deleteImageFromImageKit (sample_runtime (Some ''https://ik.example.io/acct''))
      (sample_sdk listFailure listFailure []
         (Inr (sample_file ''logo-2'' ''/app-assets/app-logo.png''
                 ''https://ik.example.io/acct/app-assets/app-logo.png'' ''app-logo.png'')))
      (Some ''logo-1'') 1 =
      (Inr False, 2, [Attempting ''logo-1'', Called (DeleteFile ''logo-1'') False])"
    using deleteImageFromImageKit_identifier[OF _ n, of
         "sample_sdk listFailure listFailure []
         (Inr (sample_file ''logo-2'' ''/app-assets/app-logo.png''
                 ''https://ik.example.io/acct/app-assets/app-logo.png'' ''app-logo.png''))" 1]
    by (simp add: sample_sdk_def)
  show ?thesis
    using uploadLogo_replaces_logo[OF i u,
            of "sample_runtime (Some ''https://ik.example.io/acct'')"
               "\<lparr>currentLogoUrl = Some ''https://ik.example.io/acct/app-assets/old-logo.png'',
                 currentLogoFileId = Some ''logo-1''\<rparr>"] i u d
    by (simp add: uploadLogo_def truthy_def)
qed

subsection \<open>Product photo clean-up\<close>

text \<open>
  What the clean-up selects: it never throws, and the URLs it hands to
  \<open>deleteImageFromImageKit\<close> are exactly the elements of \<open>current\<close> that are
  classified as hosted and are not in \<open>desired\<close>, in order. This says which URLs are
  attempted, not which asset of the host each attempt deletes.
\<close>

lemma reconcile_selection:
  "\<exists>report h' es.
      reconcile rt sdk current desired h = (Inr report, h', es) \<and>
      map fst report = [u \<leftarrow> current. isImageKitUrl rt (Some u) \<and> u \<notin> set desired] \<and>
      attempts es = [u \<leftarrow> current. isImageKitUrl rt (Some u) \<and> u \<notin> set desired] \<and>
      length (deletes es) \<le> length (attempts es) \<and>
      (\<forall>u. u \<in> set (attempts es) \<longrightarrow>
           u \<in> set current \<and> u \<notin> set desired \<and> isImageKitUrl rt (Some u)) \<and>
      ([u \<leftarrow> current. isImageKitUrl rt (Some u) \<and> u \<notin> set desired] = [] \<longrightarrow>
           es = [] \<and> h' = h)"
proof -
  let ?marked = "[u \<leftarrow> current. isImageKitUrl rt (Some u) \<and> u \<notin> set desired]"
  from deleteImageFiles_trace[of rt sdk ?marked h] obtain report h' es where
    d: "deleteImageFiles rt sdk ?marked h = (Inr report, h', es)"
    and m: "map fst report = ?marked"
    and a: "attempts es = [s \<leftarrow> ?marked. s \<noteq> []]"
    and l: "length (deletes es) \<le> length ?marked" by blast
  have ne: "[s \<leftarrow> ?marked. s \<noteq> []] = ?marked"
    by (rule filter_True) (auto dest: isImageKitUrl_nonempty)
  have r: "reconcile rt sdk current desired h = (Inr report, h', es)"
    using d by (simp add: reconcile_def imagesToDelete_filter)
  have z: "?marked = [] \<longrightarrow> es = [] \<and> h' = h"
    using d by auto
  show ?thesis
    using r m a l z unfolding ne by auto
qed

text \<open>
  C1. The claim fails on the asset that is deleted. The product keeps \<open>p1.jpg\<close> and
  drops \<open>shop1.jpg\<close>. Only the URL of \<open>shop1.jpg\<close> is marked, as claimed, but
  resolving it returns the identifier of \<open>p1.jpg\<close> (the URL test accepts an entry
  whose last URL segment occurs in the queried URL), and \<open>deleteFile\<close> is called on
  \<open>id-p1\<close>: the asset of a photo in \<open>desired\<close> is deleted.
\<close>

theorem reconcile_deletes_kept_photo:
  "imagesToDelete (sample_runtime (Some ''https://ik.example.io/acct''))
      [''https://ik.example.io/acct/products/p1.jpg'', ''https://ik.example.io/acct/products/shop1.jpg''] [''https://ik.example.io/acct/products/p1.jpg''] = [''https://ik.example.io/acct/products/shop1.jpg''] \<and>
   deleteImageFromImageKit (sample_runtime (Some ''https://ik.example.io/acct''))
      (sample_sdk
         (Inr (RespArray
            [sample_file ''id-p1'' ''/products/p1.jpg''
               ''https://ik.example.io/acct/products/p1.jpg'' ''p1.jpg'',
             sample_file ''id-shop1'' ''/products/shop1.jpg''
               ''https://ik.example.io/acct/products/shop1.jpg'' ''shop1.jpg'']))
         listFailure [''id-p1'', ''id-shop1''] (Inl (Error ''unused'')))
      (Some ''https://ik.example.io/acct/products/shop1.jpg'') 0 =
     (Inr True, 2,
      [Attempting ''https://ik.example.io/acct/products/shop1.jpg'',
       Called (ListFiles (Some ''/acct/products'')) True,
       Called (DeleteFile ''id-p1'') True]) \<and>
   reconcile (sample_runtime (Some ''https://ik.example.io/acct''))
      (sample_sdk
         (Inr (RespArray
            [sample_file ''id-p1'' ''/products/p1.jpg''
               ''https://ik.example.io/acct/products/p1.jpg'' ''p1.jpg'',
             sample_file ''id-shop1'' ''/products/shop1.jpg''
               ''https://ik.example.io/acct/products/shop1.jpg'' ''shop1.jpg'']))
         listFailure [''id-p1'', ''id-shop1''] (Inl (Error ''unused'')))
      [''https://ik.example.io/acct/products/p1.jpg'', ''https://ik.example.io/acct/products/shop1.jpg''] [''https://ik.example.io/acct/products/p1.jpg''] 0 =
     (Inr [(''https://ik.example.io/acct/products/shop1.jpg'', True)], 2,
      [Attempting ''https://ik.example.io/acct/products/shop1.jpg'',
       Called (ListFiles (Some ''/acct/products'')) True,
       Called (DeleteFile ''id-p1'') True])"
  by code_simp

subsection \<open>Identifier resolution\<close>

lemma extractImageKitFilePath_nonempty:
  "extractImageKitFilePath rt imageUrl = Some thePath \<Longrightarrow> thePath \<noteq> []"
  by (auto simp: extractImageKitFilePath_def Let_def split: option.splits if_splits)

lemma getImageKitFileId_queries:
  assumes "extractImageKitFilePath rt imageUrl = Some thePath"
  shows "\<exists>s n. getImageKitFileId rt sdk imageUrl h =
                  lookupFileId sdk s thePath n (folderPathOf thePath) h"
proof -
  from assms obtain s where s: "imageUrl = Some s" "s \<noteq> []"
    by (auto simp: extractImageKitFilePath_def split: option.splits if_splits)
  have p: "thePath \<noteq> []" using assms by (rule extractImageKitFilePath_nonempty)
  show ?thesis
    using assms s p
    by (simp add: getImageKitFileId_def folderPathOf_def Let_def catch_unused
          lookupFileId_returns) blast
qed

lemma getImageKitFileId_no_path:
  "extractImageKitFilePath rt imageUrl = None \<Longrightarrow>
     getImageKitFileId rt sdk imageUrl h = (Inr None, h, [])"
  by (auto simp: getImageKitFileId_def split: option.splits)

lemma lookupFileId_both_fail:
  assumes "isl (fst (listFiles sdk (Some fo) h))"
    and "isl (fst (listFiles sdk None (snd (listFiles sdk (Some fo) h))))"
  shows "lookupFileId sdk u p n fo h =
           (Inr None, snd (listFiles sdk None (snd (listFiles sdk (Some fo) h))),
            [Called (ListFiles (Some fo)) False, Called (ListFiles None) False])"
  using assms
  by (auto simp: lookupFileId_def call_listFiles_def isl_def split: prod.splits sum.splits)

text \<open>
  C4. For every input URL: when the list query on the folder that the function
  computes from the URL fails, and the unscoped query that follows it fails too,
  \<open>getImageKitFileId\<close> returns null (not found) and throws nothing. Nothing is
  assumed of the host's answers for other folders or in other states.
\<close>

theorem getImageKitFileId_lists_fail:
  assumes "\<forall>thePath. extractImageKitFilePath rt imageUrl = Some thePath \<longrightarrow>
             isl (fst (listFiles sdk (Some (folderPathOf thePath)) h)) \<and>
             isl (fst (listFiles sdk None
                    (snd (listFiles sdk (Some (folderPathOf thePath)) h))))"
  shows "fst (getImageKitFileId rt sdk imageUrl h) = Inr None"
proof (cases "extractImageKitFilePath rt imageUrl")
  case None
  then show ?thesis by (simp add: getImageKitFileId_no_path)
next
  case (Some thePath)
  from getImageKitFileId_queries[OF Some, of sdk h] obtain s n where
    g: "getImageKitFileId rt sdk imageUrl h =
          lookupFileId sdk s thePath n (folderPathOf thePath) h" by blast
  from assms Some have
    "isl (fst (listFiles sdk (Some (folderPathOf thePath)) h))"
    "isl (fst (listFiles sdk None (snd (listFiles sdk (Some (folderPathOf thePath)) h))))"
    by auto
  from lookupFileId_both_fail[OF this, of s thePath n] show ?thesis
    unfolding g by simp
qed

theorem getImageKitFileId_lists_fail_witness:
  "fst (listFiles (only_folder_sdk ''/other'') (Some ''/other'') 0) = Inr (RespArray []) \<and>
   fst (getImageKitFileId (sample_runtime (Some ''https://ik.example.io/acct''))
          (only_folder_sdk ''/other'')
          (Some ''https://ik.example.io/acct/products/p1.jpg'') 0) = Inr None"
proof -
  have e: "extractImageKitFilePath (sample_runtime (Some ''https://ik.example.io/acct''))
             (Some ''https://ik.example.io/acct/products/p1.jpg'') = Some ''/acct/products/p1.jpg''"
    by code_simp
  have f: "folderPathOf ''/acct/products/p1.jpg'' = ''/acct/products''"
    by code_simp
  have "fst (getImageKitFileId (sample_runtime (Some ''https://ik.example.io/acct''))
          (only_folder_sdk ''/other'')
          (Some ''https://ik.example.io/acct/products/p1.jpg'') 0) = Inr None"
    by (rule getImageKitFileId_lists_fail) (simp add: e f only_folder_sdk_def)
  then show ?thesis by (simp add: only_folder_sdk_def)
qed

lemma both_listings_fail_example:
  "getImageKitFileId (sample_runtime (Some ''https://ik.example.io/acct''))
          (sample_sdk listFailure listFailure [] (Inl (Error ''unused'')))
          (Some ''https://ik.example.io/acct/products/p1.jpg'') 0 =
     (Inr None, 2, [Called (ListFiles (Some ''/acct/products'')) False,
                    Called (ListFiles None) False])"
  by code_simp

text \<open>
  C2. The claim fails in the unscoped fallback. The URL of \<open>/acct/products/b/p1.jpg\<close>
  is resolved while the folder-scoped query fails; the unscoped listing holds a record
  with exactly that path and the identifier \<open>id-B\<close>, after the record of another
  product's \<open>p1.jpg\<close>. Method 2 takes the first record that passes any of its tests,
  so the function returns \<open>id-A\<close>, and \<open>deleteImageFromImageKit\<close> deletes that file.
\<close>

theorem getImageKitFileId_fallback_returns_other_file:
  "extractImageKitFilePath (sample_runtime (Some ''https://ik.example.io/acct''))
      (Some ''https://ik.example.io/acct/products/b/p1.jpg'') = Some ''/acct/products/b/p1.jpg'' \<and>
   getImageKitFileId (sample_runtime (Some ''https://ik.example.io/acct''))
      (sample_sdk listFailure
         (Inr (RespArray
            [sample_file ''id-A'' ''/acct/products/a/p1.jpg''
               ''https://ik.example.io/acct/products/a/p1.jpg'' ''p1.jpg'',
             sample_file ''id-B'' ''/acct/products/b/p1.jpg''
               ''https://ik.example.io/acct/products/b/p1.jpg'' ''p1.jpg'']))
         [''id-A'', ''id-B''] (Inl (Error ''unused'')))
      (Some ''https://ik.example.io/acct/products/b/p1.jpg'') 0 =
     (Inr (Some ''id-A''), 2,
      [Called (ListFiles (Some ''/acct/products/b'')) False, Called (ListFiles None) True]) \<and>
   deleteImageFromImageKit (sample_runtime (Some ''https://ik.example.io/acct''))
      (sample_sdk listFailure
         (Inr (RespArray
            [sample_file ''id-A'' ''/acct/products/a/p1.jpg''
               ''https://ik.example.io/acct/products/a/p1.jpg'' ''p1.jpg'',
             sample_file ''id-B'' ''/acct/products/b/p1.jpg''
               ''https://ik.example.io/acct/products/b/p1.jpg'' ''p1.jpg'']))
         [''id-A'', ''id-B''] (Inl (Error ''unused'')))
      (Some ''https://ik.example.io/acct/products/b/p1.jpg'') 0 =
     (Inr True, 3,
      [Attempting ''https://ik.example.io/acct/products/b/p1.jpg'',
       Called (ListFiles (Some ''/acct/products/b'')) False, Called (ListFiles None) True,
       Called (DeleteFile ''id-A'') True])"
  by code_simp

text \<open>
  C3. The claimed order of matching fails in Method 1: exact URL equality does not
  come before every looser test. For the URL of \<open>shop1.jpg\<close> and a folder listing of
  \<open>p1.jpg\<close> then \<open>shop1.jpg\<close>, no stored path is equal, and only the second entry
  has the queried URL, so the claimed order (\<open>specPriorityMatch\<close>) selects
  \<open>id-shop1\<close>. The URL pass of the code also accepts an entry whose last URL segment
  occurs in the queried URL, and \<open>p1.jpg\<close> occurs in \<open>shop1.jpg\<close>: the code
  returns \<open>id-p1\<close>.
\<close>

theorem method1Match_not_claimed_order:
  "specPriorityMatch ''https://ik.example.io/acct/products/shop1.jpg''
      ''/acct/products/shop1.jpg'' ''shop1.jpg''
      [sample_file ''id-p1'' ''/products/p1.jpg''
         ''https://ik.example.io/acct/products/p1.jpg'' ''p1.jpg'',
       sample_file ''id-shop1'' ''/products/shop1.jpg''
         ''https://ik.example.io/acct/products/shop1.jpg'' ''shop1.jpg''] =
     Some (sample_file ''id-shop1'' ''/products/shop1.jpg''
             ''https://ik.example.io/acct/products/shop1.jpg'' ''shop1.jpg'') \<and>
   method1Match ''https://ik.example.io/acct/products/shop1.jpg''
      ''/acct/products/shop1.jpg'' (Some ''shop1.jpg'')
      [sample_file ''id-p1'' ''/products/p1.jpg''
         ''https://ik.example.io/acct/products/p1.jpg'' ''p1.jpg'',
       sample_file ''id-shop1'' ''/products/shop1.jpg''
         ''https://ik.example.io/acct/products/shop1.jpg'' ''shop1.jpg''] = Some ''id-p1'' \<and>
   getImageKitFileId (sample_runtime (Some ''https://ik.example.io/acct''))
      (sample_sdk
         (Inr (RespArray
            [sample_file ''id-p1'' ''/products/p1.jpg''
               ''https://ik.example.io/acct/products/p1.jpg'' ''p1.jpg'',
             sample_file ''id-shop1'' ''/products/shop1.jpg''
               ''https://ik.example.io/acct/products/shop1.jpg'' ''shop1.jpg'']))
         listFailure [] (Inl (Error ''unused'')))
      (Some ''https://ik.example.io/acct/products/shop1.jpg'') 0 =
     (Inr (Some ''id-p1''), 1, [Called (ListFiles (Some ''/acct/products'')) True])"
  by code_simp

end
